theory Spec2Isabelle
  imports Complex_Main
begin

section \<open>JavaScript values used by the route handlers\<close>

text \<open>
  A JavaScript string is a sequence of UTF-16 code units. The model covers the code units
  below 256: the \<^typ>\<open>char\<close> with code \<open>n\<close> stands for the code unit \<open>n\<close>
  (ASCII and the Latin-1 supplement). JavaScript numbers are IEEE doubles; the scores are
  modelled in exact rational arithmetic (\<open>0.1\<close> is \<open>1/10\<close>), timestamps are whole
  milliseconds since the epoch.
\<close>

definition code_unit :: "char \<Rightarrow> nat" where
  "code_unit c = of_char c"

text \<open>\<^verbatim>\<open>\w\<close> of a regular expression without the unicode flag: \<^verbatim>\<open>[A-Za-z0-9_]\<close>.\<close>

definition is_word_char :: "char \<Rightarrow> bool" where
  "is_word_char c =
     (let n = code_unit c
      in (48 \<le> n \<and> n \<le> 57) \<or> (65 \<le> n \<and> n \<le> 90) \<or> n = 95 \<or> (97 \<le> n \<and> n \<le> 122))"

text \<open>\<^verbatim>\<open>\s\<close>: white space and line terminators; below 256 these are TAB, LF, VT, FF, CR,
  SPACE and NO-BREAK SPACE.\<close>

definition is_space_char :: "char \<Rightarrow> bool" where
  "is_space_char c = (code_unit c \<in> {9, 10, 11, 12, 13, 32, 160})"

text \<open>\<^verbatim>\<open>String.prototype.toLowerCase\<close>: below 256 the letters with a lower-case partner are
  \<open>A\<close>..\<open>Z\<close> and U+00C0..U+00DE without the multiplication sign U+00D7; the partner is 32
  code units further.\<close>

definition lower_char :: "char \<Rightarrow> char" where
  "lower_char c =
     (let n = code_unit c
      in if (65 \<le> n \<and> n \<le> 90) \<or> (192 \<le> n \<and> n \<le> 222 \<and> n \<noteq> 215)
         then char_of (n + 32) else c)"

definition toLowerCase :: "string \<Rightarrow> string" where
  "toLowerCase s = map lower_char s"

text \<open>\<^verbatim>\<open>s.replace(/[^\w\s]/g, ' ')\<close>\<close>

definition replace_non_word :: "string \<Rightarrow> string" where
  "replace_non_word s = map (\<lambda>c. if is_word_char c \<or> is_space_char c then c else CHR '' '') s"

text \<open>\<^verbatim>\<open>s.split(/\s+/)\<close>: the pieces between the maximal runs of white space. A run at the
  start or at the end of the string leaves an empty piece there, and the empty string splits
  into one empty piece.\<close>

fun split_ws :: "string \<Rightarrow> string list" where
  "split_ws [] = [[]]"
| "split_ws (c # cs) =
     (if is_space_char c
      then (case cs of
              [] \<Rightarrow> [[], []]
            | c' # _ \<Rightarrow> if is_space_char c' then split_ws cs else [] # split_ws cs)
      else (case split_ws cs of
              [] \<Rightarrow> [[c]]
            | t # ts \<Rightarrow> (c # t) # ts))"

text \<open>\<^verbatim>\<open>xs.slice(start)\<close> and \<^verbatim>\<open>xs.slice(0, end)\<close> of \<^verbatim>\<open>Array.prototype.slice\<close>: a negative
  index counts from the end, and both are clamped to the array.\<close>

definition relative_index :: "'a list \<Rightarrow> int \<Rightarrow> nat" where
  "relative_index xs i =
     (let len = int (length xs)
      in nat (if i < 0 then max (len + i) 0 else min i len))"

definition slice_from :: "'a list \<Rightarrow> int \<Rightarrow> 'a list" where
  "slice_from xs start = drop (relative_index xs start) xs"

definition slice_to :: "'a list \<Rightarrow> int \<Rightarrow> 'a list" where
  "slice_to xs end = take (relative_index xs end) xs"

text \<open>\<^verbatim>\<open>xs.join(sep)\<close> on an array of strings.\<close>

fun join :: "string \<Rightarrow> string list \<Rightarrow> string" where
  "join sep [] = []"
| "join sep [x] = x"
| "join sep (x # y # ys) = x @ sep @ join sep (y # ys)"

text \<open>\<^verbatim>\<open>s.includes(k)\<close>: \<open>k\<close> occurs in \<open>s\<close> as a contiguous piece.\<close>

fun starts_with :: "string \<Rightarrow> string \<Rightarrow> bool" where
  "starts_with s [] = True"
| "starts_with [] (k # ks) = False"
| "starts_with (c # cs) (k # ks) = (c = k \<and> starts_with cs ks)"

fun includes_str :: "string \<Rightarrow> string \<Rightarrow> bool" where
  "includes_str [] k = (k = [])"
| "includes_str (c # cs) k = (starts_with (c # cs) k \<or> includes_str cs k)"

text \<open>A field of a JSON request body: left out, \<^verbatim>\<open>null\<close>, or a value of the declared type.\<close>

datatype 'a field = Omitted | Null | Val 'a

fun truthy_string :: "string field \<Rightarrow> bool" where
  "truthy_string (Val s) = (s \<noteq> [])"
| "truthy_string _ = False"

text \<open>An array is truthy even when it is empty.\<close>

fun truthy_array :: "'a list field \<Rightarrow> bool" where
  "truthy_array (Val xs) = True"
| "truthy_array _ = False"

section \<open>Keyword extraction of \<^verbatim>\<open>POST /api/v1/context\<close>\<close>

definition stopWords :: "string list" where
  "stopWords =
     [''the'', ''a'', ''an'', ''and'', ''or'', ''but'', ''in'', ''on'', ''at'', ''to'', ''for'',
      ''of'', ''with'', ''by'', ''from'', ''is'', ''was'', ''are'', ''were'', ''been'', ''be'',
      ''have'', ''has'', ''had'', ''do'', ''does'', ''did'', ''will'', ''would'', ''could'',
      ''should'', ''can'', ''may'', ''might'', ''what'', ''when'', ''where'', ''who'', ''how'',
      ''why'', ''this'', ''that'', ''these'', ''those'']"

definition keep_word :: "string \<Rightarrow> bool" where
  "keep_word word = (length word > 2 \<and> word \<notin> set stopWords)"

text \<open>The chain \<^verbatim>\<open>.toLowerCase().replace(...).split(...).filter(...)\<close> that the handler
  applies to the query and to the joined history.\<close>

definition filtered_words :: "string \<Rightarrow> string list" where
  "filtered_words s = filter keep_word (split_ws (replace_non_word (toLowerCase s)))"

definition query_keywords :: "string \<Rightarrow> string list" where
  "query_keywords query = slice_to (filtered_words query) 10"

definition history_keywords :: "string list \<Rightarrow> string list" where
  "history_keywords conversation_history =
     (let recentContext = join '' '' (slice_from conversation_history (- 3))
      in slice_to (filtered_words recentContext) 5)"

text \<open>\<^verbatim>\<open>keywords\<close> after the optional \<^verbatim>\<open>keywords.push(...historyKeywords)\<close>.\<close>

definition extract_keywords :: "string \<Rightarrow> string list field \<Rightarrow> string list" where
  "extract_keywords query conversation_history =
     (case conversation_history of
        Val h \<Rightarrow> if length h > 0 then query_keywords query @ history_keywords h
                 else query_keywords query
      | _ \<Rightarrow> query_keywords query)"

section \<open>Data model\<close>

text \<open>A row of the \<^verbatim>\<open>memories\<close> table (interface \<^verbatim>\<open>Memory\<close>). \<open>created_at\<close> is the
  instant \<^verbatim>\<open>new Date(memory.created_at).getTime()\<close> reads from the stored timestamp.\<close>

record memory =
  memory_id :: string
  user_id :: string
  memory_text :: string
  source :: string
  memory_project_id :: string
  tags :: "string list"
  created_at :: int
  updated_at :: int

text \<open>The object \<^verbatim>\<open>{ ...memory, relevance_score: score }\<close>.\<close>

record scored_memory = memory +
  relevance_score :: rat

definition with_score :: "memory \<Rightarrow> rat \<Rightarrow> scored_memory" where
  "with_score m score = memory.extend m (scored_memory.fields score)"

text \<open>The \<^verbatim>\<open>limit\<close> of a request body is declared a number. The model takes whole numbers
  and the other falsy JSON values, the empty string and \<^verbatim>\<open>false\<close>.\<close>

datatype limit_json = LimNumber int | LimEmptyString | LimFalse

text \<open>Interface \<^verbatim>\<open>ContextRequest\<close>, each field as the JSON body may carry it.\<close>

record context_request =
  query :: "string field"
  llm :: "string field"
  limit :: "limit_json field"
  project_id :: "string field"
  conversation_history :: "string list field"

text \<open>The error object of a failed external call; only its \<^verbatim>\<open>message\<close> is read.\<close>

record upstream_error =
  message :: "string field"

text \<open>The \<^verbatim>\<open>{ data, error }\<close> object a store call resolves to.\<close>

record 'a store_reply =
  data :: "'a option"
  error :: "upstream_error option"

text \<open>The query \<^verbatim>\<open>POST /context\<close> builds on the table \<^verbatim>\<open>memories\<close>:
  \<^verbatim>\<open>select('*')\<close>, \<^verbatim>\<open>eq('user_id', _)\<close>, \<^verbatim>\<open>textSearch('text_search', _, websearch/english)\<close>,
  \<^verbatim>\<open>order('created_at', { ascending: false })\<close>, \<^verbatim>\<open>limit(_)\<close> and the optional
  \<^verbatim>\<open>eq('project_id', _)\<close>.\<close>

record lexical_query =
  eq_user_id :: string
  textSearch :: string
  order_ascending :: bool
  limit_rows :: int
  eq_project_id :: "string option"

section \<open>Relevance scoring and ranking of \<^verbatim>\<open>POST /api/v1/context\<close>\<close>

text \<open>\<^verbatim>\<open>limit || 10\<close>\<close>

fun limit_or_10 :: "limit_json field \<Rightarrow> int" where
  "limit_or_10 (Val (LimNumber n)) = (if n = 0 then 10 else n)"
| "limit_or_10 _ = 10"

text \<open>\<^verbatim>\<open>(Date.now() - new Date(memory.created_at).getTime()) / (1000 * 60 * 60 * 24)\<close>\<close>

definition days_old :: "int \<Rightarrow> int \<Rightarrow> rat" where
  "days_old now created = of_int (now - created) / (1000 * 60 * 60 * 24)"

text \<open>\<^verbatim>\<open>Math.max(0, 5 - daysOld * 0.1)\<close>\<close>

definition recency_bonus :: "rat \<Rightarrow> rat" where
  "recency_bonus daysOld = max 0 (5 - daysOld * (1 / 10))"

text \<open>One round of \<^verbatim>\<open>keywords.forEach\<close>: \<^verbatim>\<open>if (memoryText.includes(keyword)) score += 10\<close>.\<close>

definition add_keyword :: "string \<Rightarrow> rat \<Rightarrow> string \<Rightarrow> rat" where
  "add_keyword memoryText score keyword =
     (if includes_str memoryText keyword then score + 10 else score)"

definition score_memory :: "string list \<Rightarrow> int \<Rightarrow> memory \<Rightarrow> rat" where
  "score_memory keywords now m =
     (let memoryText = toLowerCase (memory_text m);
          score = foldl (add_keyword memoryText) 0 keywords;
          daysOld = days_old now (created_at m)
      in score + recency_bonus daysOld)"

text \<open>The score as the specification words it, for comparison with \<open>score_memory\<close>: ten
  times the number of distinct keywords that occur in the memory's text without regard to
  case, plus the recency bonus.\<close>

definition score_by_distinct_keywords :: "string list \<Rightarrow> int \<Rightarrow> memory \<Rightarrow> rat" where
  "score_by_distinct_keywords keywords now m =
     10 * of_nat (length (remdups
            (filter (\<lambda>k. includes_str (toLowerCase (memory_text m)) (toLowerCase k)) keywords)))
     + max 0 (5 - (1 / 10) * days_old now (created_at m))"

text \<open>\<^verbatim>\<open>(data || []).map(...)\<close>. The callback reads \<^verbatim>\<open>Date.now()\<close> once for each memory:
  \<open>now i\<close> is the reading taken for the memory at index \<open>i\<close>.\<close>

fun score_from :: "string list \<Rightarrow> (nat \<Rightarrow> int) \<Rightarrow> nat \<Rightarrow> memory list \<Rightarrow> scored_memory list" where
  "score_from keywords now i [] = []"
| "score_from keywords now i (m # ms) =
     with_score m (score_memory keywords (now i) m) # score_from keywords now (Suc i) ms"

text \<open>\<^verbatim>\<open>Array.prototype.sort\<close> with a comparator is stable: \<open>a\<close> goes before \<open>b\<close> when
  \<open>cmp a b < 0\<close>, and elements that compare equal keep their order.\<close>

fun insert_cmp :: "('a \<Rightarrow> 'a \<Rightarrow> rat) \<Rightarrow> 'a \<Rightarrow> 'a list \<Rightarrow> 'a list" where
  "insert_cmp cmp x [] = [x]"
| "insert_cmp cmp x (y # ys) =
     (if cmp x y \<le> 0 then x # y # ys else y # insert_cmp cmp x ys)"

definition sort_cmp :: "('a \<Rightarrow> 'a \<Rightarrow> rat) \<Rightarrow> 'a list \<Rightarrow> 'a list" where
  "sort_cmp cmp xs = foldr (insert_cmp cmp) xs []"

text \<open>The comparator \<^verbatim>\<open>(a, b) => b.relevance_score - a.relevance_score\<close>.\<close>

definition by_score_desc :: "scored_memory \<Rightarrow> scored_memory \<Rightarrow> rat" where
  "by_score_desc a b = relevance_score b - relevance_score a"

text \<open>\<^verbatim>\<open>new Set(scoredMemories.map(m => m.source))\<close>: the distinct sources; \<^verbatim>\<open>size\<close> is
  the length of this list and \<^verbatim>\<open>has\<close> is membership.\<close>

definition source_set :: "scored_memory list \<Rightarrow> string list" where
  "source_set ms = remdups (map source ms)"

text \<open>The value of \<^verbatim>\<open>llm && sources.size > 1 && !sources.has(llm)\<close>: the operator \<^verbatim>\<open>&&\<close>
  yields its left operand when that is falsy.\<close>

datatype js_flag = FlagUndefined | FlagNull | FlagString string | FlagBool bool

fun cross_llm :: "string field \<Rightarrow> string list \<Rightarrow> js_flag" where
  "cross_llm Omitted sources = FlagUndefined"
| "cross_llm Null sources = FlagNull"
| "cross_llm (Val l) sources =
     (if l = [] then FlagString l
      else FlagBool (length sources > 1 \<and> l \<notin> set sources))"

section \<open>Requests, external calls and responses of the memories routes\<close>

text \<open>Interface \<^verbatim>\<open>CreateMemoryRequest\<close>. The metadata object is the list of its
  properties in insertion order; a metadata value is a string or a boolean. Assigning a
  property replaces the value of a key the object has and appends a new key otherwise.\<close>

datatype meta_value = MetaString string | MetaBool bool

type_synonym metadata = "(string \<times> meta_value) list"

fun set_property :: "string \<Rightarrow> meta_value \<Rightarrow> metadata \<Rightarrow> metadata" where
  "set_property k v [] = [(k, v)]"
| "set_property k v ((k', v') # ps) =
     (if k' = k then (k, v) # ps else (k', v') # set_property k v ps)"

record create_memory_request =
  new_text :: "string field"
  new_source :: "string field"
  new_project_id :: "string field"
  new_tags :: "string list field"
  new_metadata :: "metadata field"

text \<open>The object handed to \<^verbatim>\<open>insert\<close>. \<open>row_embedding\<close> is the vector that the source
  writes in pgvector text form.\<close>

record new_memory =
  row_user_id :: string
  row_text :: string
  row_source :: string
  row_project_id :: string
  row_tags :: "string list"
  row_metadata :: metadata
  row_embedding :: "rat list"

text \<open>The arguments of the remote procedure \<^verbatim>\<open>match_memories\<close>; \<open>match_count\<close> is
  \<open>None\<close> when \<^verbatim>\<open>parseInt\<close> gave \<^verbatim>\<open>NaN\<close>.\<close>

record match_args =
  query_embedding :: "rat list"
  match_threshold :: rat
  match_count :: "int option"
  filter_user_id :: string

text \<open>The query of \<^verbatim>\<open>GET /memories/context/all\<close>: \<^verbatim>\<open>select('text')\<close>,
  \<^verbatim>\<open>eq('user_id', _)\<close>, \<^verbatim>\<open>order('created_at', { ascending: false })\<close>, \<^verbatim>\<open>range(_, _)\<close>.\<close>

record range_query =
  select_columns :: string
  range_user_id :: string
  range_order_column :: string
  range_ascending :: bool
  range_from :: "int option"
  range_to :: "int option"

text \<open>A row of a \<^verbatim>\<open>select('text')\<close> result.\<close>

record text_row =
  text_of_row :: string

text \<open>What the chat completion and the embedding request resolve to: a rejection with an
  error, or the content of the first choice (if any) and the embedding vector.\<close>

datatype chat_reply = ChatRejected upstream_error | ChatContent "string option"

datatype embed_reply = EmbedRejected upstream_error | EmbedVector "rat list"

text \<open>Every call that leaves the process, in the order the handler makes them.\<close>

datatype ext_call =
    TextSearchCall lexical_query
  | ChatCall string
  | EmbedCall string
  | InsertCall new_memory
  | MatchCall match_args
  | RangeCall range_query

text \<open>The collaborators of a request: the store, the model provider and the clock.\<close>

record env =
  text_search :: "lexical_query \<Rightarrow> memory list store_reply"
  date_now :: "nat \<Rightarrow> int"
  chat_completion :: "string \<Rightarrow> chat_reply"
  embeddings_create :: "string \<Rightarrow> embed_reply"
  insert_memory :: "new_memory \<Rightarrow> memory store_reply"
  match_memories :: "match_args \<Rightarrow> memory list store_reply"
  select_range :: "range_query \<Rightarrow> text_row list store_reply"

record intelligence_flags =
  keyword_extraction :: bool
  relevance_scoring :: bool
  conversation_context :: bool

record context_response =
  out_query :: string
  keywords_extracted :: "string list"
  memories :: "scored_memory list"
  count :: nat
  crossLLM :: js_flag
  out_llm :: string
  intelligence :: intelligence_flags

text \<open>The JSON bodies the handlers send. \<open>ErrorBody e m\<close> is \<^verbatim>\<open>{ error: e, message: m }\<close>;
  \<open>SearchBody\<close> is \<^verbatim>\<open>{ memories, count, query }\<close>, \<open>TextBody\<close> is \<^verbatim>\<open>{ context, count }\<close> and
  \<open>TextPageBody\<close> is \<^verbatim>\<open>{ context, count, limit, offset }\<close>.\<close>

datatype body =
    ErrorBody string string
  | ContextBody context_response
  | CreatedBody "memory option"
  | SearchBody "memory list" nat string
  | TextBody "string list" nat
  | TextPageBody "string list" nat "int option" "int option"

datatype response = Response (status: nat) (body: body)

text \<open>\<^verbatim>\<open>error.message || fallback\<close>\<close>

definition message_or :: "upstream_error \<Rightarrow> string \<Rightarrow> string" where
  "message_or e fallback =
     (case message e of Val m \<Rightarrow> if m = [] then fallback else m | _ \<Rightarrow> fallback)"

definition internal_error :: "upstream_error \<Rightarrow> string \<Rightarrow> response" where
  "internal_error e fallback =
     Response 500 (ErrorBody ''Internal Server Error'' (message_or e fallback))"

definition bad_request :: "string \<Rightarrow> response" where
  "bad_request m = Response 400 (ErrorBody ''Bad Request'' m)"

section \<open>The handler of \<^verbatim>\<open>POST /api/v1/context\<close>\<close>

definition build_query :: "string \<Rightarrow> string list \<Rightarrow> context_request \<Rightarrow> lexical_query" where
  "build_query uid keywords req =
     \<lparr>eq_user_id = uid,
      textSearch = join '' | '' keywords,
      order_ascending = False,
      limit_rows = limit_or_10 (limit req),
      eq_project_id = (case project_id req of
                         Val p \<Rightarrow> if p = [] then None else Some p
                       | _ \<Rightarrow> None)\<rparr>"

text \<open>\<^verbatim>\<open>data || []\<close>\<close>

definition rows_or_empty :: "'a list option \<Rightarrow> 'a list" where
  "rows_or_empty dat = (case dat of None \<Rightarrow> [] | Some rows \<Rightarrow> rows)"

text \<open>The part of the handler after \<^verbatim>\<open>const { data, error } = await dbQuery\<close> and
  \<^verbatim>\<open>if (error) throw error\<close>.\<close>

definition rank_memories :: "string list \<Rightarrow> (nat \<Rightarrow> int) \<Rightarrow> memory list option \<Rightarrow> scored_memory list" where
  "rank_memories keywords now dat =
     sort_cmp by_score_desc (score_from keywords now 0 (rows_or_empty dat))"

definition context_body :: "string \<Rightarrow> string list \<Rightarrow> context_request \<Rightarrow> scored_memory list \<Rightarrow> context_response" where
  "context_body q keywords req scoredMemories =
     (let sources = source_set scoredMemories
      in \<lparr>out_query = q,
          keywords_extracted = keywords,
          memories = slice_to scoredMemories (limit_or_10 (limit req)),
          count = length scoredMemories,
          crossLLM = cross_llm (llm req) sources,
          out_llm = (case llm req of Val l \<Rightarrow> if l = [] then ''unknown'' else l | _ \<Rightarrow> ''unknown''),
          intelligence =
            \<lparr>keyword_extraction = True,
             relevance_scoring = True,
             conversation_context = truthy_array (conversation_history req)\<rparr>\<rparr>)"

definition context_post :: "env \<Rightarrow> string \<Rightarrow> context_request \<Rightarrow> response \<times> ext_call list" where
  "context_post e uid req =
     (if \<not> truthy_string (query req)
      then (bad_request ''Query is required.'', [])
      else
        (case query req of
           Val q \<Rightarrow>
             (let keywords = extract_keywords q (conversation_history req);
                  dbQuery = build_query uid keywords req;
                  reply = text_search e dbQuery
              in case error reply of
                   Some err \<Rightarrow>
                     (internal_error err ''Failed to recall context.'', [TextSearchCall dbQuery])
                 | None \<Rightarrow>
                     (Response 200
                        (ContextBody
                           (context_body q keywords req
                              (rank_memories keywords (date_now e) (data reply)))),
                      [TextSearchCall dbQuery]))
         | _ \<Rightarrow> (bad_request ''Query is required.'', [])))"

section \<open>The handlers of the memories routes\<close>

text \<open>\<^verbatim>\<open>String.prototype.trim\<close>\<close>

definition trim :: "string \<Rightarrow> string" where
  "trim s = rev (dropWhile is_space_char (rev (dropWhile is_space_char s)))"

text \<open>\<^verbatim>\<open>parseInt(s)\<close> without a radix: leading white space is skipped, a sign is read, a
  prefix \<^verbatim>\<open>0x\<close> selects radix 16, and the longest run of digits is the value; \<open>None\<close> is
  \<^verbatim>\<open>NaN\<close>. Values are exact (no rounding to a double).\<close>

definition digit_of :: "nat \<Rightarrow> char \<Rightarrow> nat option" where
  "digit_of radix c =
     (let n = code_unit c;
          d = (if 48 \<le> n \<and> n \<le> 57 then Some (n - 48)
               else if 97 \<le> n \<and> n \<le> 122 then Some (n - 87)
               else if 65 \<le> n \<and> n \<le> 90 then Some (n - 55)
               else None)
      in case d of None \<Rightarrow> None | Some v \<Rightarrow> if v < radix then Some v else None)"

fun parse_digits :: "nat \<Rightarrow> nat \<Rightarrow> string \<Rightarrow> nat" where
  "parse_digits radix acc [] = acc"
| "parse_digits radix acc (c # cs) =
     (case digit_of radix c of
        None \<Rightarrow> acc
      | Some d \<Rightarrow> parse_digits radix (acc * radix + d) cs)"

definition parseInt :: "string \<Rightarrow> int option" where
  "parseInt s =
     (let s1 = dropWhile is_space_char s;
          negative = (case s1 of [] \<Rightarrow> False | c # _ \<Rightarrow> c = CHR ''-'');
          s2 = (case s1 of [] \<Rightarrow> [] | c # cs \<Rightarrow> if c = CHR ''-'' \<or> c = CHR ''+'' then cs else s1);
          hex = (case s2 of a # b # _ \<Rightarrow> a = CHR ''0'' \<and> (b = CHR ''x'' \<or> b = CHR ''X'') | _ \<Rightarrow> False);
          radix = (if hex then 16 else 10);
          s3 = (if hex then drop 2 s2 else s2)
      in case s3 of
           [] \<Rightarrow> None
         | c # _ \<Rightarrow>
             (case digit_of radix c of
                None \<Rightarrow> None
              | Some _ \<Rightarrow>
                  Some ((if negative then - 1 else 1) * int (parse_digits radix 0 s3))))"

text \<open>A parameter of the query string with a numeric default, as in
  \<^verbatim>\<open>const { limit = 10 } = req.query\<close> followed by \<^verbatim>\<open>parseInt(limit as string)\<close>.\<close>

definition param_int :: "int \<Rightarrow> string option \<Rightarrow> int option" where
  "param_int dflt p = (case p of None \<Rightarrow> Some dflt | Some s \<Rightarrow> parseInt s)"

text \<open>\<^verbatim>\<open>parseInt(String(limit))\<close> on the \<^verbatim>\<open>limit\<close> of a JSON body with default 10: a whole
  number reads back as itself, \<^verbatim>\<open>null\<close>, \<^verbatim>\<open>false\<close> and the empty string give \<^verbatim>\<open>NaN\<close>.\<close>

fun body_int :: "limit_json field \<Rightarrow> int option" where
  "body_int Omitted = Some 10"
| "body_int (Val (LimNumber n)) = Some n"
| "body_int _ = None"

text \<open>The search text of a vector-mode request: missing, a string, or a value of another
  type (an array or an object). \<^verbatim>\<open>!q || typeof q !== 'string'\<close> rejects all but a non-empty
  string.\<close>

datatype search_param = ParamAbsent | ParamString string | ParamOther

fun search_text :: "search_param \<Rightarrow> string option" where
  "search_text (ParamString s) = (if s = [] then None else Some s)"
| "search_text _ = None"

record search_request =
  q_param :: search_param
  limit_param :: "string option"

record search_body =
  body_query :: search_param
  body_limit :: "limit_json field"

record page_request =
  page_limit :: "string option"
  page_offset :: "string option"

text \<open>\<^verbatim>\<open>extractKeyInfo\<close>: a failed completion is caught and the original text returned;
  so is an empty or missing content (\<^verbatim>\<open>extracted || text\<close>).\<close>

definition extractKeyInfo :: "env \<Rightarrow> string \<Rightarrow> string" where
  "extractKeyInfo e text =
     (case chat_completion e text of
        ChatRejected err \<Rightarrow> text
      | ChatContent None \<Rightarrow> text
      | ChatContent (Some content) \<Rightarrow>
          (let extracted = trim content in if extracted = [] then text else extracted))"

text \<open>\<^verbatim>\<open>generateEmbedding\<close>: the error is logged and thrown again.\<close>

definition generateEmbedding :: "env \<Rightarrow> string \<Rightarrow> upstream_error + rat list" where
  "generateEmbedding e text =
     (case embeddings_create e text of
        EmbedRejected err \<Rightarrow> Inl err
      | EmbedVector v \<Rightarrow> Inr v)"

text \<open>\<^verbatim>\<open>POST /api/v1/memories\<close>\<close>

definition new_row :: "string \<Rightarrow> create_memory_request \<Rightarrow> string \<Rightarrow> string \<Rightarrow> rat list \<Rightarrow> new_memory" where
  "new_row uid req text extractedText embedding =
     \<lparr>row_user_id = uid,
      row_text = extractedText,
      row_source = (case new_source req of Val s \<Rightarrow> if s = [] then ''api'' else s | _ \<Rightarrow> ''api''),
      row_project_id =
        (case new_project_id req of Val p \<Rightarrow> if p = [] then ''default'' else p | _ \<Rightarrow> ''default''),
      row_tags = (case new_tags req of Val ts \<Rightarrow> ts | _ \<Rightarrow> []),
      row_metadata =
        set_property ''extracted'' (MetaBool True)
          (set_property ''original_text'' (MetaString text)
             (case new_metadata req of Val md \<Rightarrow> md | _ \<Rightarrow> [])),
      row_embedding = embedding\<rparr>"

definition memories_post :: "env \<Rightarrow> string \<Rightarrow> create_memory_request \<Rightarrow> response \<times> ext_call list" where
  "memories_post e uid req =
     (if \<not> truthy_string (new_text req)
      then (bad_request ''Text is required.'', [])
      else
        (case new_text req of
           Val text \<Rightarrow>
             (let extractedText = extractKeyInfo e text
              in case generateEmbedding e extractedText of
                   Inl err \<Rightarrow>
                     (internal_error err ''Failed to create memory.'',
                      [ChatCall text, EmbedCall extractedText])
                 | Inr embedding \<Rightarrow>
                     (let memory = new_row uid req text extractedText embedding;
                          reply = insert_memory e memory
                      in case error reply of
                           Some err \<Rightarrow>
                             (internal_error err ''Failed to create memory.'',
                              [ChatCall text, EmbedCall extractedText, InsertCall memory])
                         | None \<Rightarrow>
                             (Response 201 (CreatedBody (data reply)),
                              [ChatCall text, EmbedCall extractedText, InsertCall memory])))
         | _ \<Rightarrow> (bad_request ''Text is required.'', [])))"

text \<open>The steps the three vector-mode handlers share: \<^verbatim>\<open>generateEmbedding\<close>, then the remote
  procedure \<^verbatim>\<open>match_memories\<close> with threshold \<open>0.5\<close>, then \<^verbatim>\<open>if (error) throw error\<close>.
  The left result is the thrown error.\<close>

definition rpc_args :: "string \<Rightarrow> rat list \<Rightarrow> int option \<Rightarrow> match_args" where
  "rpc_args uid queryEmbedding n =
     \<lparr>query_embedding = queryEmbedding, match_threshold = 1 / 2,
      match_count = n, filter_user_id = uid\<rparr>"

definition vector_match ::
  "env \<Rightarrow> string \<Rightarrow> string \<Rightarrow> int option \<Rightarrow> (upstream_error + memory list option) \<times> ext_call list" where
  "vector_match e uid text n =
     (case generateEmbedding e text of
        Inl err \<Rightarrow> (Inl err, [EmbedCall text])
      | Inr queryEmbedding \<Rightarrow>
          (let args = rpc_args uid queryEmbedding n;
               reply = match_memories e args
           in case error reply of
                Some err \<Rightarrow> (Inl err, [EmbedCall text, MatchCall args])
              | None \<Rightarrow> (Inr (data reply), [EmbedCall text, MatchCall args])))"

text \<open>\<^verbatim>\<open>GET /api/v1/memories/search\<close>\<close>

definition search_get :: "env \<Rightarrow> string \<Rightarrow> search_request \<Rightarrow> response \<times> ext_call list" where
  \<open>search_get e uid req =
     (case search_text (q_param req) of
        None \<Rightarrow> (bad_request ''Query parameter "q" is required.'', [])
      | Some text \<Rightarrow>
          (case vector_match e uid text (param_int 10 (limit_param req)) of
             (Inl err, calls) \<Rightarrow> (internal_error err ''Failed to search memories.'', calls)
           | (Inr dat, calls) \<Rightarrow>
               (Response 200 (SearchBody (rows_or_empty dat) (length (rows_or_empty dat)) text),
                calls)))\<close>

text \<open>\<^verbatim>\<open>POST /api/v1/memories/search\<close>\<close>

definition search_post :: "env \<Rightarrow> string \<Rightarrow> search_body \<Rightarrow> response \<times> ext_call list" where
  "search_post e uid req =
     (case search_text (body_query req) of
        None \<Rightarrow> (bad_request ''Query field is required.'', [])
      | Some text \<Rightarrow>
          (case vector_match e uid text (body_int (body_limit req)) of
             (Inl err, calls) \<Rightarrow> (internal_error err ''Failed to search memories.'', calls)
           | (Inr dat, calls) \<Rightarrow>
               (Response 200 (SearchBody (rows_or_empty dat) (length (rows_or_empty dat)) text),
                calls)))"

text \<open>\<^verbatim>\<open>GET /api/v1/memories/context\<close>\<close>

definition context_get :: "env \<Rightarrow> string \<Rightarrow> search_request \<Rightarrow> response \<times> ext_call list" where
  \<open>context_get e uid req =
     (case search_text (q_param req) of
        None \<Rightarrow> (bad_request ''Query parameter "q" is required.'', [])
      | Some text \<Rightarrow>
          (case vector_match e uid text (param_int 10 (limit_param req)) of
             (Inl err, calls) \<Rightarrow> (internal_error err ''Failed to generate context.'', calls)
           | (Inr dat, calls) \<Rightarrow>
               (let context = map memory_text (rows_or_empty dat)
                in (Response 200 (TextBody context (length context)), calls))))\<close>

text \<open>\<^verbatim>\<open>GET /api/v1/memories/context/all\<close>. An operand \<^verbatim>\<open>NaN\<close> makes the sum \<^verbatim>\<open>NaN\<close>.\<close>

definition range_end :: "int option \<Rightarrow> int option \<Rightarrow> int option" where
  "range_end offset width =
     (case (offset, width) of (Some a, Some b) \<Rightarrow> Some (a + b - 1) | _ \<Rightarrow> None)"

definition page_query :: "string \<Rightarrow> page_request \<Rightarrow> range_query" where
  "page_query uid req =
     (let page_size = param_int 100 (page_limit req);
          offset = param_int 0 (page_offset req)
      in \<lparr>select_columns = ''text'', range_user_id = uid,
          range_order_column = ''created_at'', range_ascending = False,
          range_from = offset, range_to = range_end offset page_size\<rparr>)"

definition context_all_get :: "env \<Rightarrow> string \<Rightarrow> page_request \<Rightarrow> response \<times> ext_call list" where
  "context_all_get e uid req =
     (let rq = page_query uid req;
          reply = select_range e rq
      in case error reply of
           Some err \<Rightarrow> (internal_error err ''Failed to retrieve all context.'', [RangeCall rq])
         | None \<Rightarrow>
             (let context = map text_of_row (rows_or_empty (data reply))
              in (Response 200
                    (TextPageBody context (length context)
                       (param_int 100 (page_limit req)) (param_int 0 (page_offset req))),
                  [RangeCall rq])))"

section \<open>Reading a response, and sample collaborators\<close>

text \<open>The body of a \<^verbatim>\<open>POST /context\<close> answer, when the response carries one.\<close>

fun context_of :: "response \<Rightarrow> context_response option" where
  "context_of (Response st (ContextBody b)) = Some b"
| "context_of _ = None"

text \<open>A call of the store's text search (the lexical retrieval).\<close>

fun is_text_search :: "ext_call \<Rightarrow> bool" where
  "is_text_search (TextSearchCall dbQuery) = True"
| "is_text_search _ = False"

text \<open>Rows and collaborators for the worked examples: a memory with a given text, source
  and creation instant; a store reply with rows and one with an error; collaborators whose
  text search and vector match answer every call with the same reply, whose completion has
  no content, whose embedding is the empty vector and whose other store calls return
  nothing.\<close>

definition sample_memory :: "string \<Rightarrow> string \<Rightarrow> int \<Rightarrow> memory" where
  "sample_memory txt src created =
     \<lparr>memory_id = ''m1'', user_id = ''u1'', memory_text = txt, source = src,
      memory_project_id = ''default'', tags = [], created_at = created, updated_at = created\<rparr>"

definition rows_reply :: "'a list \<Rightarrow> 'a list store_reply" where
  "rows_reply rows = \<lparr>data = Some rows, error = None\<rparr>"

definition failed_reply :: "string \<Rightarrow> 'a store_reply" where
  "failed_reply msg = \<lparr>data = None, error = Some \<lparr>message = Val msg\<rparr>\<rparr>"

definition sample_env :: "memory list store_reply \<Rightarrow> (nat \<Rightarrow> int) \<Rightarrow> env" where
  "sample_env reply clock =
     \<lparr>text_search = (\<lambda>dbQuery. reply),
      date_now = clock,
      chat_completion = (\<lambda>txt. ChatContent None),
      embeddings_create = (\<lambda>txt. EmbedVector []),
      insert_memory = (\<lambda>row. \<lparr>data = None, error = None\<rparr>),
      match_memories = (\<lambda>args. reply),
      select_range = (\<lambda>rq. \<lparr>data = None, error = None\<rparr>)\<rparr>"

definition sample_request :: "string \<Rightarrow> string field \<Rightarrow> limit_json field \<Rightarrow> context_request" where
  "sample_request qs l n =
     \<lparr>query = Val qs, llm = l, limit = n, project_id = Omitted, conversation_history = Omitted\<rparr>"

section \<open>Properties of keyword extraction\<close>

lemma length_slice_to: "0 \<le> n \<Longrightarrow> length (slice_to xs n) \<le> nat n"
  by (simp add: slice_to_def relative_index_def)

lemma set_slice_to: "set (slice_to xs n) \<subseteq> set xs"
  by (simp add: slice_to_def set_take_subset)

lemma filtered_words_keep: "k \<in> set (filtered_words s) \<Longrightarrow> keep_word k"
  by (simp add: filtered_words_def)

lemma query_keywords_keep:
  assumes "k \<in> set (query_keywords s)"
  shows "keep_word k"
proof -
  have "k \<in> set (filtered_words s)"
    using assms set_slice_to [of "filtered_words s" 10] unfolding query_keywords_def
    by (rule_tac subsetD)
  then show ?thesis by (rule filtered_words_keep)
qed

lemma history_keywords_keep:
  assumes "k \<in> set (history_keywords h)"
  shows "keep_word k"
proof -
  have "k \<in> set (filtered_words (join '' '' (slice_from h (- 3))))"
    using assms set_slice_to [of "filtered_words (join '' '' (slice_from h (- 3)))" 5]
    unfolding history_keywords_def Let_def by (rule_tac subsetD)
  then show ?thesis by (rule filtered_words_keep)
qed

lemma length_query_keywords: "length (query_keywords s) \<le> 10"
  using length_slice_to [of 10 "filtered_words s"] by (simp add: query_keywords_def)

lemma length_history_keywords: "length (history_keywords h) \<le> 5"
  using length_slice_to [of 5] by (simp add: history_keywords_def Let_def)

lemma extract_keywords_cases:
  "extract_keywords s h = query_keywords s \<or>
   (\<exists>hs. h = Val hs \<and> hs \<noteq> [] \<and> extract_keywords s h = query_keywords s @ history_keywords hs)"
  by (cases h) (auto simp: extract_keywords_def)

lemma extract_keywords_keep: "k \<in> set (extract_keywords s h) \<Longrightarrow> keep_word k"
  using extract_keywords_cases [of s h] query_keywords_keep history_keywords_keep by auto

lemma length_extract_keywords: "length (extract_keywords s h) \<le> 15"
proof -
  have "length (query_keywords s @ history_keywords hs) \<le> 15" for hs
    using length_query_keywords [of s] length_history_keywords [of hs] by simp
  then show ?thesis
    using extract_keywords_cases [of s h] length_query_keywords [of s] by auto
qed

lemma set_query_keywords_extract: "set (query_keywords s) \<subseteq> set (extract_keywords s h)"
  using extract_keywords_cases [of s h] by auto

lemma example_query_keywords:
  "query_keywords ''I prefer dark mode and decided to use PostgreSQL'' =
     [''prefer'', ''dark'', ''mode'', ''decided'', ''use'', ''postgresql'']"
  by code_simp

text \<open>
  Claim C3. For every query string and every history, the keyword list has at most 15
  entries: at most 10 from the query and at most 5 from the history. No entry has length 2
  or less, and no entry is a stop word. The query
  \<open>I prefer dark mode and decided to use PostgreSQL\<close> without history gives, in this order,
  prefer, dark, mode, decided, use, postgresql; with any history the list still contains
  prefer, dark, mode, decided and postgresql.
\<close>

theorem extract_keywords_bounded:
  "length (query_keywords s) \<le> 10 \<and>
   (\<forall>hs. length (history_keywords hs) \<le> 5) \<and>
   length (extract_keywords s h) \<le> 15 \<and>
   (\<forall>k \<in> set (extract_keywords s h). 2 < length k \<and> k \<notin> set stopWords) \<and>
   extract_keywords ''I prefer dark mode and decided to use PostgreSQL'' Omitted =
     [''prefer'', ''dark'', ''mode'', ''decided'', ''use'', ''postgresql''] \<and>
   set [''prefer'', ''dark'', ''mode'', ''decided'', ''postgresql'']
     \<subseteq> set (extract_keywords ''I prefer dark mode and decided to use PostgreSQL'' h)"
proof -
  have keep: "\<forall>k \<in> set (extract_keywords s h). 2 < length k \<and> k \<notin> set stopWords"
    using extract_keywords_keep [of _ s h] by (simp add: keep_word_def)
  have ex: "extract_keywords ''I prefer dark mode and decided to use PostgreSQL'' Omitted =
     [''prefer'', ''dark'', ''mode'', ''decided'', ''use'', ''postgresql'']"
    by (simp add: extract_keywords_def example_query_keywords)
  have sub: "set [''prefer'', ''dark'', ''mode'', ''decided'', ''postgresql'']
     \<subseteq> set (extract_keywords ''I prefer dark mode and decided to use PostgreSQL'' h)"
    using set_query_keywords_extract [of "''I prefer dark mode and decided to use PostgreSQL''" h]
    by (simp add: example_query_keywords)
  show ?thesis
    using length_query_keywords length_history_keywords length_extract_keywords keep ex sub
    by blast
qed

theorem extract_keywords_bounded_witness:
  "''dark'' \<in> set (extract_keywords ''Dark mode, or the DARK side?'' (Val [''to be'', ''dark'']))
   \<and> 2 < length ''dark'' \<and> ''dark'' \<notin> set stopWords
   \<and> length (extract_keywords ''Dark mode, or the DARK side?'' (Val [''to be'', ''dark''])) \<le> 15"
proof -
  have mem: "''dark'' \<in> set (extract_keywords ''Dark mode, or the DARK side?'' (Val [''to be'', ''dark'']))"
    by code_simp
  show ?thesis
    using mem extract_keywords_bounded [of "''Dark mode, or the DARK side?''" "Val [''to be'', ''dark'']"]
    by blast
qed

section \<open>Properties of the relevance score\<close>

lemma foldl_add_keyword:
  "foldl (add_keyword t) acc ks = acc + 10 * of_nat (length (filter (includes_str t) ks))"
  by (induction ks arbitrary: acc) (simp_all add: add_keyword_def algebra_simps)

lemma score_memory_formula:
  "score_memory ks now m =
     10 * of_nat (length (filter (includes_str (toLowerCase (memory_text m))) ks))
     + recency_bonus (days_old now (created_at m))"
  by (simp add: score_memory_def Let_def foldl_add_keyword)

lemma recency_bonus_nonneg: "0 \<le> recency_bonus d"
  by (simp add: recency_bonus_def)

lemma recency_bonus_antimono: "d1 \<le> d2 \<Longrightarrow> recency_bonus d2 \<le> recency_bonus d1"
  by (simp add: recency_bonus_def max_def)

lemma recency_bonus_le_5: "0 \<le> d \<Longrightarrow> recency_bonus d \<le> 5"
  by (simp add: recency_bonus_def)

lemma days_old_mono: "now1 - c1 \<le> now2 - c2 \<Longrightarrow> days_old now1 c1 \<le> days_old now2 c2"
  by (simp add: days_old_def divide_right_mono)

lemma days_old_nonneg: "c \<le> now \<Longrightarrow> 0 \<le> days_old now c"
  by (simp add: days_old_def)

lemma score_memory_nonneg: "0 \<le> score_memory ks now m"
  using recency_bonus_nonneg [of "days_old now (created_at m)"]
  by (simp add: score_memory_formula)

lemma filter_one_more:
  assumes "\<not> P k" and "P' k" and "\<forall>x \<in> set ks. x \<noteq> k \<longrightarrow> P' x = P x"
  shows "length (filter P' ks) = length (filter P ks) + count_list ks k"
  using assms by (induction ks) auto




text \<open>
  Claim C8, as stated, fails: a memory whose \<open>created_at\<close> lies one day after the
  evaluation instant has age \<open>-1\<close> days and recency bonus 5.1, outside \<open>[0, 5]\<close>.
\<close>

theorem recency_bonus_future_memory:
  "days_old 0 86400000 = - 1 \<and>
   recency_bonus (days_old 0 86400000) = 51 / 10 \<and>
   \<not> recency_bonus (days_old 0 86400000) \<le> 5"
  by (simp add: days_old_def recency_bonus_def)

text \<open>
  Claim C8, amended. The recency bonus is monotonically non-increasing in the age of the
  memory and never negative; it is at most 5 whenever \<open>created_at\<close> is not later than the
  evaluation instant. Every relevance score is at least 0.
\<close>

theorem recency_bonus_bounds:
  "(d1 \<le> d2 \<longrightarrow> recency_bonus d2 \<le> recency_bonus d1) \<and>
   (now1 - c1 \<le> now2 - c2 \<longrightarrow>
      recency_bonus (days_old now2 c2) \<le> recency_bonus (days_old now1 c1)) \<and>
   0 \<le> recency_bonus d \<and>
   (created_at m \<le> now \<longrightarrow> recency_bonus (days_old now (created_at m)) \<le> 5) \<and>
   0 \<le> score_memory ks now m"
  using recency_bonus_antimono [of d1 d2]
    recency_bonus_antimono [OF days_old_mono, of now1 c1 now2 c2]
    recency_bonus_nonneg [of d]
    recency_bonus_le_5 [OF days_old_nonneg, of "created_at m" now]
    score_memory_nonneg [of ks now m]
  by simp

theorem recency_bonus_bounds_witness:
  "recency_bonus 2 \<le> recency_bonus 1 \<and>
   recency_bonus (days_old 172800000 0) \<le> recency_bonus (days_old 86400000 0) \<and>
   recency_bonus (days_old 86400000
     (created_at (sample_memory ''Dark mode'' ''claude'' 0))) \<le> 5"
  using recency_bonus_bounds [of 1 2 86400000 0 172800000 0 0
      "sample_memory ''Dark mode'' ''claude'' 0" 86400000 "[]"]
  by (simp add: sample_memory_def)

section \<open>Properties of the ranking\<close>

lemma relevance_score_with_score [simp]: "relevance_score (with_score m v) = v"
  by (simp add: with_score_def memory.defs scored_memory.defs)

lemma created_at_with_score [simp]: "created_at (with_score m v) = created_at m"
  by (simp add: with_score_def memory.defs scored_memory.defs)

lemma source_with_score [simp]: "source (with_score m v) = source m"
  by (simp add: with_score_def memory.defs scored_memory.defs)

lemma length_score_from [simp]: "length (score_from ks now i rows) = length rows"
  by (induction rows arbitrary: i) simp_all

lemma map_created_at_score_from: "map created_at (score_from ks now i rows) = map created_at rows"
  by (induction rows arbitrary: i) simp_all

lemma set_insert_cmp [simp]: "set (insert_cmp cmp x ys) = insert x (set ys)"
  by (induction ys) auto

lemma length_insert_cmp [simp]: "length (insert_cmp cmp x ys) = Suc (length ys)"
  by (induction ys) auto

lemma set_sort_cmp [simp]: "set (sort_cmp cmp xs) = set xs"
  by (induction xs) (simp_all add: sort_cmp_def)

lemma length_sort_cmp [simp]: "length (sort_cmp cmp xs) = length xs"
  by (induction xs) (simp_all add: sort_cmp_def)

lemma sort_cmp_Cons: "sort_cmp cmp (x # xs) = insert_cmp cmp x (sort_cmp cmp xs)"
  by (simp add: sort_cmp_def)

lemma sort_cmp_Nil [simp]: "sort_cmp cmp [] = []"
  by (simp add: sort_cmp_def)

lemma sorted_insert_by_score:
  "sorted_wrt (\<lambda>a b. relevance_score b \<le> relevance_score a) ys \<Longrightarrow>
   sorted_wrt (\<lambda>a b. relevance_score b \<le> relevance_score a) (insert_cmp by_score_desc x ys)"
  by (induction ys) (auto simp: by_score_desc_def)

lemma sorted_sort_by_score:
  "sorted_wrt (\<lambda>a b. relevance_score b \<le> relevance_score a) (sort_cmp by_score_desc xs)"
  by (induction xs) (simp_all add: sort_cmp_Cons sorted_insert_by_score)

lemma filter_insert_by_score:
  "filter (\<lambda>a. relevance_score a = v) (insert_cmp by_score_desc x ys) =
     (if relevance_score x = v then x # filter (\<lambda>a. relevance_score a = v) ys
      else filter (\<lambda>a. relevance_score a = v) ys)"
  by (induction ys) (auto simp: by_score_desc_def)

lemma filter_sort_by_score:
  "filter (\<lambda>a. relevance_score a = v) (sort_cmp by_score_desc xs) =
   filter (\<lambda>a. relevance_score a = v) xs"
  by (induction xs) (simp_all add: sort_cmp_Cons filter_insert_by_score)

lemma sorted_wrt_filter_iff:
  "sorted_wrt (\<lambda>a b. p a \<and> p b \<longrightarrow> r a b) ys \<longleftrightarrow> sorted_wrt r (filter p ys)"
  by (induction ys) auto

lemma sorted_wrt_ties:
  assumes "\<And>v. sorted_wrt r (filter (\<lambda>a. f a = v) ys)"
  shows "sorted_wrt (\<lambda>a b. f a = f b \<longrightarrow> r a b) ys"
proof -
  have "(f (ys ! i) = f (ys ! j) \<longrightarrow> r (ys ! i) (ys ! j))" if "i < j" "j < length ys" for i j
  proof
    assume eq: "f (ys ! i) = f (ys ! j)"
    have "sorted_wrt (\<lambda>a b. f a = f (ys ! i) \<and> f b = f (ys ! i) \<longrightarrow> r a b) ys"
      using assms [of "f (ys ! i)"] by (simp add: sorted_wrt_filter_iff)
    then show "r (ys ! i) (ys ! j)"
      using that eq by (simp add: sorted_wrt_iff_nth_less)
  qed
  then show ?thesis
    by (simp add: sorted_wrt_iff_nth_less)
qed

lemma sort_by_score_ties:
  assumes "sorted_wrt (\<lambda>a b. created_at b \<le> created_at a) xs"
  shows "sorted_wrt (\<lambda>a b. relevance_score a = relevance_score b \<longrightarrow> created_at b \<le> created_at a)
           (sort_cmp by_score_desc xs)"
proof (rule sorted_wrt_ties)
  fix v
  have "sorted_wrt (\<lambda>a b. created_at b \<le> created_at a) (filter (\<lambda>a. relevance_score a = v) xs)"
    using assms by (rule sorted_wrt_filter)
  then show "sorted_wrt (\<lambda>a b. created_at b \<le> created_at a)
           (filter (\<lambda>a. relevance_score a = v) (sort_cmp by_score_desc xs))"
    by (simp add: filter_sort_by_score)
qed

lemma sorted_wrt_score_from_created:
  "sorted_wrt (\<lambda>a b. created_at b \<le> created_at a) rows \<Longrightarrow>
   sorted_wrt (\<lambda>a b. created_at b \<le> created_at a) (score_from ks now i rows)"
proof -
  assume a: "sorted_wrt (\<lambda>a b. created_at b \<le> created_at a) rows"
  have "sorted_wrt (\<lambda>a b. b \<le> a) (map created_at rows)"
    using a by (simp add: sorted_wrt_map)
  then have "sorted_wrt (\<lambda>a b. b \<le> a) (map created_at (score_from ks now i rows))"
    by (simp add: map_created_at_score_from)
  then show ?thesis
    by (simp add: sorted_wrt_map)
qed

lemma sorted_wrt_slice_to: "sorted_wrt r xs \<Longrightarrow> sorted_wrt r (slice_to xs n)"
  by (simp add: slice_to_def sorted_wrt_take)

lemma slice_to_all: "int (length xs) \<le> n \<Longrightarrow> slice_to xs n = xs"
  by (simp add: slice_to_def relative_index_def)

section \<open>Properties of \<^verbatim>\<open>POST /api/v1/context\<close>\<close>

lemma context_post_invalid:
  "\<not> truthy_string (query req) \<Longrightarrow>
   context_post e uid req = (bad_request ''Query is required.'', [])"
  by (simp add: context_post_def)

lemma context_post_failed:
  assumes "query req = Val qs" and "qs \<noteq> []"
    and "error (text_search e (build_query uid (extract_keywords qs (conversation_history req)) req))
         = Some err"
  shows "context_post e uid req =
     (internal_error err ''Failed to recall context.'',
      [TextSearchCall (build_query uid (extract_keywords qs (conversation_history req)) req)])"
  using assms by (simp add: context_post_def Let_def)

lemma context_post_ok:
  assumes "query req = Val qs" and "qs \<noteq> []"
    and "error (text_search e (build_query uid (extract_keywords qs (conversation_history req)) req))
         = None"
  shows "context_post e uid req =
     (Response 200
        (ContextBody
           (context_body qs (extract_keywords qs (conversation_history req)) req
              (rank_memories (extract_keywords qs (conversation_history req)) (date_now e)
                 (data (text_search e
                    (build_query uid (extract_keywords qs (conversation_history req)) req)))))),
      [TextSearchCall (build_query uid (extract_keywords qs (conversation_history req)) req)])"
  using assms by (simp add: context_post_def Let_def)

text \<open>A response with status 200 and a context body comes from the last branch only.\<close>

lemma context_post_success:
  assumes "context_post e uid req = (Response 200 (ContextBody b), calls)"
  shows "\<exists>qs. query req = Val qs \<and> qs \<noteq> [] \<and>
     error (text_search e (build_query uid (extract_keywords qs (conversation_history req)) req))
       = None \<and>
     b = context_body qs (extract_keywords qs (conversation_history req)) req
           (rank_memories (extract_keywords qs (conversation_history req)) (date_now e)
              (data (text_search e
                 (build_query uid (extract_keywords qs (conversation_history req)) req)))) \<and>
     calls = [TextSearchCall (build_query uid (extract_keywords qs (conversation_history req)) req)]"
proof (cases "query req")
  case Omitted
  then show ?thesis using assms by (simp add: context_post_def bad_request_def)
next
  case Null
  then show ?thesis using assms by (simp add: context_post_def bad_request_def)
next
  case (Val qs)
  show ?thesis
  proof (cases "qs = []")
    case True
    then show ?thesis using assms Val by (simp add: context_post_def bad_request_def)
  next
    case False
    show ?thesis
    proof (cases "error (text_search e
        (build_query uid (extract_keywords qs (conversation_history req)) req))")
      case None
      then show ?thesis
        using assms context_post_ok [OF Val False None] Val False by simp
    next
      case (Some err)
      then show ?thesis
        using assms context_post_failed [OF Val False Some] by (simp add: internal_error_def)
    qed
  qed
qed

lemma memories_context_body [simp]:
  "memories (context_body qs ks req scored) = slice_to scored (limit_or_10 (limit req))"
  by (simp add: context_body_def Let_def)

lemma crossLLM_context_body [simp]:
  "crossLLM (context_body qs ks req scored) = cross_llm (llm req) (source_set scored)"
  by (simp add: context_body_def Let_def)

lemma count_context_body [simp]: "count (context_body qs ks req scored) = length scored"
  by (simp add: context_body_def Let_def)

lemma keywords_context_body [simp]: "keywords_extracted (context_body qs ks req scored) = ks"
  by (simp add: context_body_def Let_def)

lemma limit_rows_build_query [simp]: "limit_rows (build_query uid ks req) = limit_or_10 (limit req)"
  by (simp add: build_query_def)

lemma sorted_rank_memories:
  "sorted_wrt (\<lambda>a b. relevance_score b \<le> relevance_score a) (rank_memories ks now dat)"
  by (simp add: rank_memories_def sorted_sort_by_score)

lemma ties_rank_memories:
  "sorted_wrt (\<lambda>a b. created_at b \<le> created_at a) (rows_or_empty dat) \<Longrightarrow>
   sorted_wrt (\<lambda>a b. relevance_score a = relevance_score b \<longrightarrow> created_at b \<le> created_at a)
     (rank_memories ks now dat)"
  unfolding rank_memories_def
  by (rule sort_by_score_ties) (rule sorted_wrt_score_from_created)

lemma length_rank_memories [simp]: "length (rank_memories ks now dat) = length (rows_or_empty dat)"
  by (simp add: rank_memories_def)

lemma set_source_set [simp]: "set (source_set scored) = source ` set scored"
  by (simp add: source_set_def)

lemma length_source_set: "length (source_set scored) = card (source ` set scored)"
  by (simp add: source_set_def length_remdups_card_conv)

text \<open>
  Claim C4. In every successful answer of \<^verbatim>\<open>POST /context\<close> the memories are in
  descending order of relevance score: for positions \<open>i\<close> before \<open>j\<close> the score at \<open>i\<close> is
  at least the score at \<open>j\<close>. The sort is stable and the store is asked for rows in
  descending order of \<open>created_at\<close>; when the store delivers them so, memories with equal
  score are ordered most recent first.
\<close>

theorem context_memories_ranked:
  assumes "context_post e uid req = (Response 200 (ContextBody b), calls)"
  shows "(\<forall>i j. i < j \<and> j < length (memories b) \<longrightarrow>
            relevance_score (memories b ! j) \<le> relevance_score (memories b ! i)) \<and>
         ((\<forall>dbq. sorted_wrt (\<lambda>x y. created_at y \<le> created_at x)
                   (rows_or_empty (data (text_search e dbq)))) \<longrightarrow>
          (\<forall>i j. i < j \<and> j < length (memories b) \<and>
                 relevance_score (memories b ! i) = relevance_score (memories b ! j) \<longrightarrow>
                 created_at (memories b ! j) \<le> created_at (memories b ! i)))"
proof -
  obtain qs where b: "b = context_body qs (extract_keywords qs (conversation_history req)) req
           (rank_memories (extract_keywords qs (conversation_history req)) (date_now e)
              (data (text_search e
                 (build_query uid (extract_keywords qs (conversation_history req)) req))))"
    using context_post_success [OF assms] by blast
  let ?ks = "extract_keywords qs (conversation_history req)"
  let ?dat = "data (text_search e (build_query uid ?ks req))"
  have m: "memories b = slice_to (rank_memories ?ks (date_now e) ?dat) (limit_or_10 (limit req))"
    by (simp add: b)
  have "sorted_wrt (\<lambda>x y. relevance_score y \<le> relevance_score x) (memories b)"
    unfolding m by (rule sorted_wrt_slice_to) (rule sorted_rank_memories)
  then have first: "\<forall>i j. i < j \<and> j < length (memories b) \<longrightarrow>
            relevance_score (memories b ! j) \<le> relevance_score (memories b ! i)"
    by (simp add: sorted_wrt_iff_nth_less)
  have second: "\<forall>i j. i < j \<and> j < length (memories b) \<and>
                 relevance_score (memories b ! i) = relevance_score (memories b ! j) \<longrightarrow>
                 created_at (memories b ! j) \<le> created_at (memories b ! i)"
    if "\<forall>dbq. sorted_wrt (\<lambda>x y. created_at y \<le> created_at x)
                   (rows_or_empty (data (text_search e dbq)))"
  proof -
    have "sorted_wrt (\<lambda>x y. created_at y \<le> created_at x) (rows_or_empty ?dat)"
      using that by simp
    then have "sorted_wrt (\<lambda>x y. relevance_score x = relevance_score y \<longrightarrow>
                  created_at y \<le> created_at x) (memories b)"
      unfolding m by (intro sorted_wrt_slice_to ties_rank_memories)
    then show ?thesis
      by (simp add: sorted_wrt_iff_nth_less)
  qed
  show ?thesis
    using first second by blast
qed

theorem context_memories_ranked_witness:
  "relevance_score
     (memories (the (context_of (fst (context_post
        (sample_env (rows_reply [sample_memory ''dark theme'' ''claude'' 5,
                                 sample_memory ''Dark mode'' ''chatgpt'' 0,
                                 sample_memory ''dark mode'' ''cursor'' 0])
           (\<lambda>i. 8640000000))
        ''u1'' (sample_request ''dark mode'' Omitted Omitted))))) ! 2)
   \<le> relevance_score
     (memories (the (context_of (fst (context_post
        (sample_env (rows_reply [sample_memory ''dark theme'' ''claude'' 5,
                                 sample_memory ''Dark mode'' ''chatgpt'' 0,
                                 sample_memory ''dark mode'' ''cursor'' 0])
           (\<lambda>i. 8640000000))
        ''u1'' (sample_request ''dark mode'' Omitted Omitted))))) ! 0) \<and>
   created_at
     (memories (the (context_of (fst (context_post
        (sample_env (rows_reply [sample_memory ''dark theme'' ''claude'' 5,
                                 sample_memory ''Dark mode'' ''chatgpt'' 0,
                                 sample_memory ''dark mode'' ''cursor'' 0])
           (\<lambda>i. 8640000000))
        ''u1'' (sample_request ''dark mode'' Omitted Omitted))))) ! 1)
   \<le> created_at
     (memories (the (context_of (fst (context_post
        (sample_env (rows_reply [sample_memory ''dark theme'' ''claude'' 5,
                                 sample_memory ''Dark mode'' ''chatgpt'' 0,
                                 sample_memory ''dark mode'' ''cursor'' 0])
           (\<lambda>i. 8640000000))
        ''u1'' (sample_request ''dark mode'' Omitted Omitted))))) ! 0)"
proof -
  let ?e = "sample_env (rows_reply [sample_memory ''dark theme'' ''claude'' 5,
                                 sample_memory ''Dark mode'' ''chatgpt'' 0,
                                 sample_memory ''dark mode'' ''cursor'' 0])
           (\<lambda>i. 8640000000)"
  let ?req = "sample_request ''dark mode'' Omitted Omitted"
  let ?b = "the (context_of (fst (context_post ?e ''u1'' ?req)))"
  have ok: "context_post ?e ''u1'' ?req =
      (Response 200 (ContextBody ?b), snd (context_post ?e ''u1'' ?req))"
    by code_simp
  have len: "length (memories ?b) = 3"
    by code_simp
  have tie: "relevance_score (memories ?b ! 0) = relevance_score (memories ?b ! 1)"
    by code_simp
  have store: "\<forall>dbq. sorted_wrt (\<lambda>x y. created_at y \<le> created_at x)
                   (rows_or_empty (data (text_search ?e dbq)))"
    by (simp add: sample_env_def rows_reply_def rows_or_empty_def sample_memory_def)
  note ranked = context_memories_ranked [OF ok]
  have "relevance_score (memories ?b ! 2) \<le> relevance_score (memories ?b ! 0)"
    using ranked len by simp
  moreover have "created_at (memories ?b ! 1) \<le> created_at (memories ?b ! 0)"
    using ranked store len tie by simp
  ultimately show ?thesis by simp
qed

lemma limit_or_10_falsy:
  "n \<in> {Omitted, Null, Val (LimNumber 0), Val LimEmptyString, Val LimFalse} \<Longrightarrow> limit_or_10 n = 10"
  by auto




text \<open>
  Claim C10. Every falsy \<open>limit\<close> (left out, \<^verbatim>\<open>null\<close>, 0, the empty string, \<^verbatim>\<open>false\<close>) is
  replaced by 10, in the row cap handed to the store and in the final truncation alike:
  both are \<^verbatim>\<open>limit || 10\<close>. So a \<open>limit\<close> of 0 asks the store for up to 10 rows and
  returns up to 10 memories. Whenever the store returned no more rows than the cap, the
  truncation removes nothing: the memories returned are all the ranked rows.
\<close>

theorem falsy_limit_uses_default:
  assumes "context_post e uid req = (Response 200 (ContextBody b), calls)"
  shows "\<exists>dbq. calls = [TextSearchCall dbq] \<and>
           limit_rows dbq = limit_or_10 (limit req) \<and>
           memories b =
             slice_to (rank_memories (keywords_extracted b) (date_now e) (data (text_search e dbq)))
               (limit_rows dbq) \<and>
           (limit req \<in> {Omitted, Null, Val (LimNumber 0), Val LimEmptyString, Val LimFalse}
              \<longrightarrow> limit_rows dbq = 10) \<and>
           (int (length (rows_or_empty (data (text_search e dbq)))) \<le> limit_rows dbq
              \<longrightarrow> memories b =
                    rank_memories (keywords_extracted b) (date_now e) (data (text_search e dbq)) \<and>
                  length (memories b) = length (rows_or_empty (data (text_search e dbq))))"
proof -
  obtain qs where b: "b = context_body qs (extract_keywords qs (conversation_history req)) req
           (rank_memories (extract_keywords qs (conversation_history req)) (date_now e)
              (data (text_search e
                 (build_query uid (extract_keywords qs (conversation_history req)) req))))"
    and calls: "calls =
      [TextSearchCall (build_query uid (extract_keywords qs (conversation_history req)) req)]"
    using context_post_success [OF assms] by blast
  let ?ks = "extract_keywords qs (conversation_history req)"
  let ?dbq = "build_query uid ?ks req"
  let ?scored = "rank_memories ?ks (date_now e) (data (text_search e ?dbq))"
  have ks: "keywords_extracted b = ?ks"
    by (simp add: b)
  have cap: "limit_rows ?dbq = limit_or_10 (limit req)"
    by simp
  have m: "memories b = slice_to ?scored (limit_rows ?dbq)"
    by (simp add: b)
  have falsy: "limit_rows ?dbq = 10"
    if "limit req \<in> {Omitted, Null, Val (LimNumber 0), Val LimEmptyString, Val LimFalse}"
    using limit_or_10_falsy [OF that] by simp
  have keep: "memories b = ?scored \<and>
      length (memories b) = length (rows_or_empty (data (text_search e ?dbq)))"
    if "int (length (rows_or_empty (data (text_search e ?dbq)))) \<le> limit_rows ?dbq"
  proof -
    have "int (length ?scored) \<le> limit_rows ?dbq"
      using that by simp
    then have "slice_to ?scored (limit_rows ?dbq) = ?scored"
      by (rule slice_to_all)
    then show ?thesis
      using m by simp
  qed
  show ?thesis
    using calls cap m falsy keep unfolding ks by blast
qed

theorem falsy_limit_uses_default_witness:
  "length (memories (the (context_of (fst (context_post
      (sample_env (rows_reply [sample_memory ''Dark mode'' ''claude'' 5,
                               sample_memory ''dark theme'' ''chatgpt'' 0])
         (\<lambda>i. 10))
      ''u1'' (sample_request ''dark mode'' Omitted (Val (LimNumber 0)))))))) = 2 \<and>
   map limit_rows (case snd (context_post
      (sample_env (rows_reply [sample_memory ''Dark mode'' ''claude'' 5,
                               sample_memory ''dark theme'' ''chatgpt'' 0])
         (\<lambda>i. 10))
      ''u1'' (sample_request ''dark mode'' Omitted (Val (LimNumber 0)))) of
        [TextSearchCall dbq] \<Rightarrow> [dbq] | _ \<Rightarrow> []) = [10]"
proof -
  let ?e = "sample_env (rows_reply [sample_memory ''Dark mode'' ''claude'' 5,
                               sample_memory ''dark theme'' ''chatgpt'' 0])
         (\<lambda>i. 10)"
  let ?req = "sample_request ''dark mode'' Omitted (Val (LimNumber 0))"
  let ?b = "the (context_of (fst (context_post ?e ''u1'' ?req)))"
  let ?calls = "snd (context_post ?e ''u1'' ?req)"
  have ok: "context_post ?e ''u1'' ?req = (Response 200 (ContextBody ?b), ?calls)"
    by code_simp
  have zero: "limit ?req \<in> {Omitted, Null, Val (LimNumber 0), Val LimEmptyString, Val LimFalse}"
    by (simp add: sample_request_def)
  have rows: "rows_or_empty (data (text_search ?e dbq)) =
      [sample_memory ''Dark mode'' ''claude'' 5, sample_memory ''dark theme'' ''chatgpt'' 0]" for dbq
    by (simp add: sample_env_def rows_reply_def rows_or_empty_def)
  obtain dbq where c: "?calls = [TextSearchCall dbq]" and ten: "limit_rows dbq = 10"
    and len: "int (length (rows_or_empty (data (text_search ?e dbq)))) \<le> limit_rows dbq
              \<longrightarrow> length (memories ?b) = length (rows_or_empty (data (text_search ?e dbq)))"
    using falsy_limit_uses_default [OF ok] zero by blast
  have "length (memories ?b) = 2"
    using len ten by (simp add: rows)
  moreover have "map limit_rows (case ?calls of [TextSearchCall dbq] \<Rightarrow> [dbq] | _ \<Rightarrow> []) = [10]"
    unfolding c using ten by simp
  ultimately show ?thesis by simp
qed



section \<open>Properties of the error paths and of the text-only answers\<close>

lemma message_or_carries: "message err = Val msg \<Longrightarrow> msg \<noteq> [] \<Longrightarrow> message_or err fallback = msg"
  by (simp add: message_or_def)

lemma memories_post_invalid:
  "\<not> truthy_string (new_text creq) \<Longrightarrow>
   memories_post e uid creq = (bad_request ''Text is required.'', [])"
  by (simp add: memories_post_def)

lemma memories_post_embedding_failed:
  assumes "new_text creq = Val str" and "str \<noteq> []"
    and "embeddings_create e (extractKeyInfo e str) = EmbedRejected err"
  shows "memories_post e uid creq =
     (internal_error err ''Failed to create memory.'',
      [ChatCall str, EmbedCall (extractKeyInfo e str)])"
  using assms by (simp add: memories_post_def generateEmbedding_def Let_def)

lemma memories_post_insert_failed:
  assumes "new_text creq = Val str" and "str \<noteq> []"
    and "embeddings_create e (extractKeyInfo e str) = EmbedVector v"
    and "error (insert_memory e (new_row uid creq str (extractKeyInfo e str) v)) = Some err"
  shows "memories_post e uid creq =
     (internal_error err ''Failed to create memory.'',
      [ChatCall str, EmbedCall (extractKeyInfo e str),
       InsertCall (new_row uid creq str (extractKeyInfo e str) v)])"
  using assms by (simp add: memories_post_def generateEmbedding_def Let_def)

lemma vector_match_embedding_failed:
  "embeddings_create e str = EmbedRejected err \<Longrightarrow>
   vector_match e uid str n = (Inl err, [EmbedCall str])"
  by (simp add: vector_match_def generateEmbedding_def)

lemma vector_match_store_failed:
  assumes "embeddings_create e str = EmbedVector v"
    and "error (match_memories e (rpc_args uid v n)) = Some err"
  shows "vector_match e uid str n =
     (Inl err, [EmbedCall str, MatchCall (rpc_args uid v n)])"
  using assms by (simp add: vector_match_def generateEmbedding_def Let_def)

lemma vector_match_ok:
  assumes "embeddings_create e str = EmbedVector v"
    and "error (match_memories e (rpc_args uid v n)) = None"
  shows "vector_match e uid str n =
     (Inr (data (match_memories e (rpc_args uid v n))),
      [EmbedCall str, MatchCall (rpc_args uid v n)])"
  using assms by (simp add: vector_match_def generateEmbedding_def Let_def)

lemma vector_match_calls: "c \<in> set (snd (vector_match e uid str n)) \<Longrightarrow> \<not> is_text_search c"
  by (auto simp: vector_match_def Let_def split: sum.splits option.splits)

lemma vector_match_failed_cases:
  assumes "embeddings_create e str = EmbedRejected err \<or>
     (\<exists>v. embeddings_create e str = EmbedVector v \<and>
          error (match_memories e (rpc_args uid v n)) = Some err)"
  shows "fst (vector_match e uid str n) = Inl err"
proof -
  consider (embed) "embeddings_create e str = EmbedRejected err"
    | (store) v where "embeddings_create e str = EmbedVector v"
        "error (match_memories e (rpc_args uid v n)) = Some err"
    using assms by blast
  then show ?thesis
  proof cases
    case embed
    then show ?thesis by (simp add: vector_match_embedding_failed)
  next
    case store
    then show ?thesis by (simp add: vector_match_store_failed)
  qed
qed

text \<open>
  Claim C5. \<^verbatim>\<open>POST /context\<close> without a query and \<^verbatim>\<open>POST /memories\<close> without a text
  (left out, \<^verbatim>\<open>null\<close> or empty) answer 400 with the envelope \<^verbatim>\<open>{ error, message }\<close> and
  make no external call at all. A failure of the store query, of the embedding request or
  of the insert is answered 500 with the same envelope; its message is the message of the
  upstream error (the handler's fixed text stands in when that error has no message).
\<close>

theorem validation_and_upstream_errors:
  "(\<not> truthy_string (query req) \<longrightarrow>
      context_post e uid req =
        (Response 400 (ErrorBody ''Bad Request'' ''Query is required.''), [])) \<and>
   (\<not> truthy_string (new_text creq) \<longrightarrow>
      memories_post e uid creq =
        (Response 400 (ErrorBody ''Bad Request'' ''Text is required.''), [])) \<and>
   (\<forall>qs err. query req = Val qs \<and> qs \<noteq> [] \<and>
       error (text_search e (build_query uid (extract_keywords qs (conversation_history req)) req))
         = Some err \<longrightarrow>
       fst (context_post e uid req) =
         Response 500 (ErrorBody ''Internal Server Error''
                         (message_or err ''Failed to recall context.''))) \<and>
   (\<forall>str err. new_text creq = Val str \<and> str \<noteq> [] \<and>
       embeddings_create e (extractKeyInfo e str) = EmbedRejected err \<longrightarrow>
       fst (memories_post e uid creq) =
         Response 500 (ErrorBody ''Internal Server Error''
                         (message_or err ''Failed to create memory.''))) \<and>
   (\<forall>str v err. new_text creq = Val str \<and> str \<noteq> [] \<and>
       embeddings_create e (extractKeyInfo e str) = EmbedVector v \<and>
       error (insert_memory e (new_row uid creq str (extractKeyInfo e str) v)) = Some err \<longrightarrow>
       fst (memories_post e uid creq) =
         Response 500 (ErrorBody ''Internal Server Error''
                         (message_or err ''Failed to create memory.''))) \<and>
   (\<forall>err msg fallback. message err = Val msg \<and> msg \<noteq> [] \<longrightarrow> message_or err fallback = msg)"
proof (intro conjI allI impI)
  assume "\<not> truthy_string (query req)"
  then show "context_post e uid req =
        (Response 400 (ErrorBody ''Bad Request'' ''Query is required.''), [])"
    by (simp add: context_post_invalid bad_request_def)
next
  assume "\<not> truthy_string (new_text creq)"
  then show "memories_post e uid creq =
        (Response 400 (ErrorBody ''Bad Request'' ''Text is required.''), [])"
    by (simp add: memories_post_invalid bad_request_def)
next
  fix qs err
  assume "query req = Val qs \<and> qs \<noteq> [] \<and>
       error (text_search e (build_query uid (extract_keywords qs (conversation_history req)) req))
         = Some err"
  then show "fst (context_post e uid req) =
         Response 500 (ErrorBody ''Internal Server Error''
                         (message_or err ''Failed to recall context.''))"
    by (simp add: context_post_failed internal_error_def)
next
  fix str err
  assume "new_text creq = Val str \<and> str \<noteq> [] \<and>
       embeddings_create e (extractKeyInfo e str) = EmbedRejected err"
  then show "fst (memories_post e uid creq) =
         Response 500 (ErrorBody ''Internal Server Error''
                         (message_or err ''Failed to create memory.''))"
    by (simp add: memories_post_embedding_failed internal_error_def)
next
  fix str v err
  assume "new_text creq = Val str \<and> str \<noteq> [] \<and>
       embeddings_create e (extractKeyInfo e str) = EmbedVector v \<and>
       error (insert_memory e (new_row uid creq str (extractKeyInfo e str) v)) = Some err"
  then show "fst (memories_post e uid creq) =
         Response 500 (ErrorBody ''Internal Server Error''
                         (message_or err ''Failed to create memory.''))"
    by (simp add: memories_post_insert_failed internal_error_def)
next
  fix err :: upstream_error and msg fallback
  assume "message err = Val msg \<and> msg \<noteq> []"
  then show "message_or err fallback = msg"
    by (simp add: message_or_carries)
qed

theorem validation_and_upstream_errors_witness:
  "context_post (sample_env (failed_reply ''connection refused'') (\<lambda>i. 0)) ''u1''
     \<lparr>query = Omitted, llm = Omitted, limit = Omitted, project_id = Omitted,
      conversation_history = Omitted\<rparr>
     = (Response 400 (ErrorBody ''Bad Request'' ''Query is required.''), []) \<and>
   memories_post (sample_env (failed_reply ''connection refused'') (\<lambda>i. 0)) ''u1''
     \<lparr>new_text = Omitted, new_source = Omitted, new_project_id = Omitted, new_tags = Omitted,
      new_metadata = Omitted\<rparr>
     = (Response 400 (ErrorBody ''Bad Request'' ''Text is required.''), []) \<and>
   fst (context_post (sample_env (failed_reply ''connection refused'') (\<lambda>i. 0)) ''u1''
          (sample_request ''dark mode'' Omitted Omitted))
     = Response 500 (ErrorBody ''Internal Server Error'' ''connection refused'') \<and>
   fst (memories_post
          ((sample_env (rows_reply []) (\<lambda>i. 0))
             \<lparr>embeddings_create := (\<lambda>str. EmbedRejected \<lparr>message = Val ''rate limit''\<rparr>)\<rparr>)
          ''u1''
          \<lparr>new_text = Val ''I prefer dark mode'', new_source = Omitted, new_project_id = Omitted,
           new_tags = Omitted, new_metadata = Omitted\<rparr>)
     = Response 500 (ErrorBody ''Internal Server Error'' ''rate limit'') \<and>
   fst (memories_post
          ((sample_env (rows_reply []) (\<lambda>i. 0))
             \<lparr>insert_memory := (\<lambda>row. failed_reply ''duplicate key'')\<rparr>)
          ''u1''
          \<lparr>new_text = Val ''I prefer dark mode'', new_source = Omitted, new_project_id = Omitted,
           new_tags = Omitted, new_metadata = Omitted\<rparr>)
     = Response 500 (ErrorBody ''Internal Server Error'' ''duplicate key'')"
proof -
  let ?down = "sample_env (failed_reply ''connection refused'') (\<lambda>i. 0)"
  let ?noq = "\<lparr>query = Omitted, llm = Omitted, limit = Omitted, project_id = Omitted,
      conversation_history = Omitted\<rparr>"
  let ?notext = "\<lparr>new_text = Omitted, new_source = Omitted, new_project_id = Omitted,
      new_tags = Omitted, new_metadata = Omitted\<rparr>"
  let ?req = "sample_request ''dark mode'' Omitted Omitted"
  let ?creq = "\<lparr>new_text = Val ''I prefer dark mode'', new_source = Omitted,
      new_project_id = Omitted, new_tags = Omitted, new_metadata = Omitted\<rparr>"
  let ?limited = "(sample_env (rows_reply []) (\<lambda>i. 0))
             \<lparr>embeddings_create := (\<lambda>str. EmbedRejected \<lparr>message = Val ''rate limit''\<rparr>)\<rparr>"
  let ?dup = "(sample_env (rows_reply []) (\<lambda>i. 0))
             \<lparr>insert_memory := (\<lambda>row. failed_reply ''duplicate key'')\<rparr>"
  have h1: "\<not> truthy_string (query ?noq)" by simp
  have h2: "\<not> truthy_string (new_text ?notext)" by simp
  have h3: "query ?req = Val ''dark mode'' \<and> ''dark mode'' \<noteq> [] \<and>
       error (text_search ?down
                (build_query ''u1'' (extract_keywords ''dark mode'' (conversation_history ?req)) ?req))
         = Some \<lparr>message = Val ''connection refused''\<rparr>"
    by (simp add: sample_request_def sample_env_def failed_reply_def)
  have h4: "new_text ?creq = Val ''I prefer dark mode'' \<and> ''I prefer dark mode'' \<noteq> [] \<and>
       embeddings_create ?limited (extractKeyInfo ?limited ''I prefer dark mode'')
         = EmbedRejected \<lparr>message = Val ''rate limit''\<rparr>"
    by (simp add: sample_env_def)
  have h5: "new_text ?creq = Val ''I prefer dark mode'' \<and> ''I prefer dark mode'' \<noteq> [] \<and>
       embeddings_create ?dup (extractKeyInfo ?dup ''I prefer dark mode'') = EmbedVector [] \<and>
       error (insert_memory ?dup
                (new_row ''u1'' ?creq ''I prefer dark mode''
                   (extractKeyInfo ?dup ''I prefer dark mode'') []))
         = Some \<lparr>message = Val ''duplicate key''\<rparr>"
    by (simp add: sample_env_def failed_reply_def)
  note all = validation_and_upstream_errors [of ?req ?down "''u1''" ?notext]
  have "context_post ?down ''u1'' ?noq
      = (Response 400 (ErrorBody ''Bad Request'' ''Query is required.''), [])"
    using validation_and_upstream_errors [of ?noq ?down "''u1''" ?notext, THEN conjunct1] h1
    by (rule mp)
  moreover have "memories_post ?down ''u1'' ?notext
      = (Response 400 (ErrorBody ''Bad Request'' ''Text is required.''), [])"
    using all [THEN conjunct2, THEN conjunct1] h2 by (rule mp)
  moreover have "fst (context_post ?down ''u1'' ?req)
      = Response 500 (ErrorBody ''Internal Server Error''
          (message_or \<lparr>message = Val ''connection refused''\<rparr> ''Failed to recall context.''))"
    using all [THEN conjunct2, THEN conjunct2, THEN conjunct1, rule_format, OF h3] .
  moreover have "fst (memories_post ?limited ''u1'' ?creq)
      = Response 500 (ErrorBody ''Internal Server Error''
          (message_or \<lparr>message = Val ''rate limit''\<rparr> ''Failed to create memory.''))"
    using validation_and_upstream_errors [of ?req ?limited "''u1''" ?creq,
        THEN conjunct2, THEN conjunct2, THEN conjunct2, THEN conjunct1, rule_format, OF h4] .
  moreover have "fst (memories_post ?dup ''u1'' ?creq)
      = Response 500 (ErrorBody ''Internal Server Error''
          (message_or \<lparr>message = Val ''duplicate key''\<rparr> ''Failed to create memory.''))"
    using validation_and_upstream_errors [of ?req ?dup "''u1''" ?creq,
        THEN conjunct2, THEN conjunct2, THEN conjunct2, THEN conjunct2, THEN conjunct1,
        rule_format, OF h5] .
  ultimately show ?thesis
    by (simp add: message_or_def)
qed

lemma search_get_failed:
  assumes "search_text (q_param sreq) = Some str"
    and "fst (vector_match e uid str (param_int 10 (limit_param sreq))) = Inl err"
  shows "fst (search_get e uid sreq) = internal_error err ''Failed to search memories.''"
  using assms
  by (cases "vector_match e uid str (param_int 10 (limit_param sreq))")
     (simp add: search_get_def)

lemma search_post_failed:
  assumes "search_text (body_query breq) = Some str"
    and "fst (vector_match e uid str (body_int (body_limit breq))) = Inl err"
  shows "fst (search_post e uid breq) = internal_error err ''Failed to search memories.''"
  using assms
  by (cases "vector_match e uid str (body_int (body_limit breq))")
     (simp add: search_post_def)

lemma context_get_failed:
  assumes "search_text (q_param sreq) = Some str"
    and "fst (vector_match e uid str (param_int 10 (limit_param sreq))) = Inl err"
  shows "fst (context_get e uid sreq) = internal_error err ''Failed to generate context.''"
  using assms
  by (cases "vector_match e uid str (param_int 10 (limit_param sreq))")
     (simp add: context_get_def)

lemma search_get_calls:
  "snd (search_get e uid sreq) =
     (case search_text (q_param sreq) of
        None \<Rightarrow> []
      | Some str \<Rightarrow> snd (vector_match e uid str (param_int 10 (limit_param sreq))))"
  by (simp add: search_get_def split: option.splits prod.splits sum.splits)

lemma search_post_calls:
  "snd (search_post e uid breq) =
     (case search_text (body_query breq) of
        None \<Rightarrow> []
      | Some str \<Rightarrow> snd (vector_match e uid str (body_int (body_limit breq))))"
  by (simp add: search_post_def split: option.splits prod.splits sum.splits)

lemma context_get_calls:
  "snd (context_get e uid sreq) =
     (case search_text (q_param sreq) of
        None \<Rightarrow> []
      | Some str \<Rightarrow> snd (vector_match e uid str (param_int 10 (limit_param sreq))))"
  by (simp add: context_get_def Let_def split: option.splits prod.splits sum.splits)

lemma search_get_no_text_search: "c \<in> set (snd (search_get e uid sreq)) \<Longrightarrow> \<not> is_text_search c"
  unfolding search_get_calls by (cases "search_text (q_param sreq)") (simp_all add: vector_match_calls)

lemma search_post_no_text_search: "c \<in> set (snd (search_post e uid breq)) \<Longrightarrow> \<not> is_text_search c"
  unfolding search_post_calls
  by (cases "search_text (body_query breq)") (simp_all add: vector_match_calls)

lemma context_get_no_text_search: "c \<in> set (snd (context_get e uid sreq)) \<Longrightarrow> \<not> is_text_search c"
  unfolding context_get_calls by (cases "search_text (q_param sreq)") (simp_all add: vector_match_calls)

lemma context_get_ok:
  assumes "search_text (q_param sreq) = Some str"
    and "embeddings_create e str = EmbedVector v"
    and "error (match_memories e (rpc_args uid v (param_int 10 (limit_param sreq)))) = None"
  shows "fst (context_get e uid sreq) =
     Response 200
       (TextBody
          (map memory_text (rows_or_empty (data (match_memories e
              (rpc_args uid v (param_int 10 (limit_param sreq)))))))
          (length (rows_or_empty (data (match_memories e
              (rpc_args uid v (param_int 10 (limit_param sreq))))))))"
  using assms by (simp add: context_get_def vector_match_ok Let_def)

lemma context_all_get_ok:
  assumes "error (select_range e (page_query uid preq)) = None"
  shows "context_all_get e uid preq =
     (Response 200
        (TextPageBody
           (map text_of_row (rows_or_empty (data (select_range e (page_query uid preq)))))
           (length (rows_or_empty (data (select_range e (page_query uid preq)))))
           (param_int 100 (page_limit preq)) (param_int 0 (page_offset preq))),
      [RangeCall (page_query uid preq)])"
  using assms by (simp add: context_all_get_def Let_def)

lemma page_query_fields:
  "select_columns (page_query uid preq) = ''text'' \<and>
   range_user_id (page_query uid preq) = uid \<and>
   range_order_column (page_query uid preq) = ''created_at'' \<and>
   \<not> range_ascending (page_query uid preq)"
  by (simp add: page_query_def Let_def)

lemma page_query_window:
  "param_int 0 (page_offset preq) = Some a \<Longrightarrow> param_int 100 (page_limit preq) = Some n \<Longrightarrow>
   range_from (page_query uid preq) = Some a \<and> range_to (page_query uid preq) = Some (a + n - 1)"
  by (simp add: page_query_def Let_def range_end_def)

text \<open>
  Claim C6. In the vector-mode handlers (\<^verbatim>\<open>GET\<close> and \<^verbatim>\<open>POST /memories/search\<close>,
  \<^verbatim>\<open>GET /memories/context\<close>) a failed embedding request or a failed store call rejects
  the whole request: the answer is the single error response with status 500 and no
  memories. None of these handlers ever calls the store's text search, whatever the
  outcome: there is no fallback to lexical retrieval.
\<close>

theorem vector_search_rejects_whole_request:
  "(\<forall>str err. search_text (q_param sreq) = Some str \<and>
       (embeddings_create e str = EmbedRejected err \<or>
        (\<exists>v. embeddings_create e str = EmbedVector v \<and>
             error (match_memories e (rpc_args uid v (param_int 10 (limit_param sreq))))
               = Some err)) \<longrightarrow>
       fst (search_get e uid sreq) =
         Response 500 (ErrorBody ''Internal Server Error''
                         (message_or err ''Failed to search memories.'')) \<and>
       fst (context_get e uid sreq) =
         Response 500 (ErrorBody ''Internal Server Error''
                         (message_or err ''Failed to generate context.''))) \<and>
   (\<forall>str err. search_text (body_query breq) = Some str \<and>
       (embeddings_create e str = EmbedRejected err \<or>
        (\<exists>v. embeddings_create e str = EmbedVector v \<and>
             error (match_memories e (rpc_args uid v (body_int (body_limit breq))))
               = Some err)) \<longrightarrow>
       fst (search_post e uid breq) =
         Response 500 (ErrorBody ''Internal Server Error''
                         (message_or err ''Failed to search memories.''))) \<and>
   (\<forall>str err. search_text (q_param sreq) = Some str \<and>
       embeddings_create e str = EmbedRejected err \<longrightarrow>
       snd (search_get e uid sreq) = [EmbedCall str] \<and>
       snd (context_get e uid sreq) = [EmbedCall str]) \<and>
   (\<forall>c \<in> set (snd (search_get e uid sreq)) \<union> set (snd (search_post e uid breq))
           \<union> set (snd (context_get e uid sreq)). \<not> is_text_search c)"
proof (intro conjI allI impI ballI)
  fix str err
  assume a: "search_text (q_param sreq) = Some str \<and>
       (embeddings_create e str = EmbedRejected err \<or>
        (\<exists>v. embeddings_create e str = EmbedVector v \<and>
             error (match_memories e (rpc_args uid v (param_int 10 (limit_param sreq))))
               = Some err))"
  then have f: "fst (vector_match e uid str (param_int 10 (limit_param sreq))) = Inl err"
    by (intro vector_match_failed_cases) simp
  show "fst (search_get e uid sreq) =
         Response 500 (ErrorBody ''Internal Server Error''
                         (message_or err ''Failed to search memories.''))"
    using a f by (simp add: search_get_failed internal_error_def)
  show "fst (context_get e uid sreq) =
         Response 500 (ErrorBody ''Internal Server Error''
                         (message_or err ''Failed to generate context.''))"
    using a f by (simp add: context_get_failed internal_error_def)
next
  fix str err
  assume a: "search_text (body_query breq) = Some str \<and>
       (embeddings_create e str = EmbedRejected err \<or>
        (\<exists>v. embeddings_create e str = EmbedVector v \<and>
             error (match_memories e (rpc_args uid v (body_int (body_limit breq))))
               = Some err))"
  then have f: "fst (vector_match e uid str (body_int (body_limit breq))) = Inl err"
    by (intro vector_match_failed_cases) simp
  show "fst (search_post e uid breq) =
         Response 500 (ErrorBody ''Internal Server Error''
                         (message_or err ''Failed to search memories.''))"
    using a f by (simp add: search_post_failed internal_error_def)
next
  fix str err
  assume a: "search_text (q_param sreq) = Some str \<and>
       embeddings_create e str = EmbedRejected err"
  show "snd (search_get e uid sreq) = [EmbedCall str]"
    using a by (simp add: search_get_calls vector_match_embedding_failed)
  show "snd (context_get e uid sreq) = [EmbedCall str]"
    using a by (simp add: context_get_calls vector_match_embedding_failed)
next
  fix c
  assume "c \<in> set (snd (search_get e uid sreq)) \<union> set (snd (search_post e uid breq))
           \<union> set (snd (context_get e uid sreq))"
  then show "\<not> is_text_search c"
    using search_get_no_text_search [of c e uid sreq]
      search_post_no_text_search [of c e uid breq]
      context_get_no_text_search [of c e uid sreq]
    by blast
qed

theorem vector_search_rejects_whole_request_witness:
  "fst (search_get
          ((sample_env (rows_reply [sample_memory ''Dark mode'' ''claude'' 0]) (\<lambda>i. 0))
             \<lparr>embeddings_create := (\<lambda>s. EmbedRejected \<lparr>message = Val ''rate limit''\<rparr>)\<rparr>)
          ''u1'' \<lparr>q_param = ParamString ''dark mode'', limit_param = None\<rparr>)
     = Response 500 (ErrorBody ''Internal Server Error'' ''rate limit'') \<and>
   snd (search_get
          ((sample_env (rows_reply [sample_memory ''Dark mode'' ''claude'' 0]) (\<lambda>i. 0))
             \<lparr>embeddings_create := (\<lambda>s. EmbedRejected \<lparr>message = Val ''rate limit''\<rparr>)\<rparr>)
          ''u1'' \<lparr>q_param = ParamString ''dark mode'', limit_param = None\<rparr>)
     = [EmbedCall ''dark mode''] \<and>
   \<not> is_text_search (hd (snd (context_get
          (sample_env (failed_reply ''connection refused'') (\<lambda>i. 0))
          ''u1'' \<lparr>q_param = ParamString ''dark mode'', limit_param = Some ''5''\<rparr>))) \<and>
   fst (context_get (sample_env (failed_reply ''connection refused'') (\<lambda>i. 0))
          ''u1'' \<lparr>q_param = ParamString ''dark mode'', limit_param = Some ''5''\<rparr>)
     = Response 500 (ErrorBody ''Internal Server Error'' ''connection refused'') \<and>
   fst (search_post (sample_env (failed_reply ''connection refused'') (\<lambda>i. 0))
          ''u1'' \<lparr>body_query = ParamString ''dark mode'', body_limit = Omitted\<rparr>)
     = Response 500 (ErrorBody ''Internal Server Error'' ''connection refused'')"
proof -
  let ?limited = "(sample_env (rows_reply [sample_memory ''Dark mode'' ''claude'' 0]) (\<lambda>i. 0))
             \<lparr>embeddings_create := (\<lambda>s. EmbedRejected \<lparr>message = Val ''rate limit''\<rparr>)\<rparr>"
  let ?down = "sample_env (failed_reply ''connection refused'') (\<lambda>i. 0)"
  let ?s1 = "\<lparr>q_param = ParamString ''dark mode'', limit_param = None\<rparr>"
  let ?s2 = "\<lparr>q_param = ParamString ''dark mode'', limit_param = Some ''5''\<rparr>"
  let ?b = "\<lparr>body_query = ParamString ''dark mode'', body_limit = Omitted\<rparr>"
  have h1: "search_text (q_param ?s1) = Some ''dark mode'' \<and>
       embeddings_create ?limited ''dark mode'' = EmbedRejected \<lparr>message = Val ''rate limit''\<rparr>"
    by (simp add: sample_env_def)
  have h1': "search_text (q_param ?s1) = Some ''dark mode'' \<and>
       (embeddings_create ?limited ''dark mode'' = EmbedRejected \<lparr>message = Val ''rate limit''\<rparr> \<or>
        (\<exists>v. embeddings_create ?limited ''dark mode'' = EmbedVector v \<and>
             error (match_memories ?limited (rpc_args ''u1'' v (param_int 10 (limit_param ?s1))))
               = Some \<lparr>message = Val ''rate limit''\<rparr>))"
    using h1 by simp
  have h2: "search_text (q_param ?s2) = Some ''dark mode'' \<and>
       (embeddings_create ?down ''dark mode'' = EmbedRejected \<lparr>message = Val ''connection refused''\<rparr> \<or>
        (\<exists>v. embeddings_create ?down ''dark mode'' = EmbedVector v \<and>
             error (match_memories ?down (rpc_args ''u1'' v (param_int 10 (limit_param ?s2))))
               = Some \<lparr>message = Val ''connection refused''\<rparr>))"
    by (simp add: sample_env_def failed_reply_def)
  have h3: "search_text (body_query ?b) = Some ''dark mode'' \<and>
       (embeddings_create ?down ''dark mode'' = EmbedRejected \<lparr>message = Val ''connection refused''\<rparr> \<or>
        (\<exists>v. embeddings_create ?down ''dark mode'' = EmbedVector v \<and>
             error (match_memories ?down (rpc_args ''u1'' v (body_int (body_limit ?b))))
               = Some \<lparr>message = Val ''connection refused''\<rparr>))"
    by (simp add: sample_env_def failed_reply_def)
  have made: "hd (snd (context_get ?down ''u1'' ?s2))
      \<in> set (snd (search_get ?down ''u1'' ?s2)) \<union> set (snd (search_post ?down ''u1'' ?b))
          \<union> set (snd (context_get ?down ''u1'' ?s2))"
    by code_simp
  note first = vector_search_rejects_whole_request [of ?s1 ?limited "''u1''" ?b]
  note second = vector_search_rejects_whole_request [of ?s2 ?down "''u1''" ?b]
  have "fst (search_get ?limited ''u1'' ?s1)
      = Response 500 (ErrorBody ''Internal Server Error''
          (message_or \<lparr>message = Val ''rate limit''\<rparr> ''Failed to search memories.''))"
    using first [THEN conjunct1, rule_format, OF h1', THEN conjunct1] .
  moreover have "snd (search_get ?limited ''u1'' ?s1) = [EmbedCall ''dark mode'']"
    using first [THEN conjunct2, THEN conjunct2, THEN conjunct1, rule_format, OF h1, THEN conjunct1] .
  moreover have "\<not> is_text_search (hd (snd (context_get ?down ''u1'' ?s2)))"
    using second [THEN conjunct2, THEN conjunct2, THEN conjunct2, rule_format, OF made] .
  moreover have "fst (context_get ?down ''u1'' ?s2)
      = Response 500 (ErrorBody ''Internal Server Error''
          (message_or \<lparr>message = Val ''connection refused''\<rparr> ''Failed to generate context.''))"
    using second [THEN conjunct1, rule_format, OF h2, THEN conjunct2] .
  moreover have "fst (search_post ?down ''u1'' ?b)
      = Response 500 (ErrorBody ''Internal Server Error''
          (message_or \<lparr>message = Val ''connection refused''\<rparr> ''Failed to search memories.''))"
    using second [THEN conjunct2, THEN conjunct1, rule_format, OF h3] .
  ultimately show ?thesis
    by (simp add: message_or_def)
qed



end
